theory Spec2Isabelle
  imports Main
begin

section \<open>JavaScript values\<close>

text \<open>
  The configuration document is what \<^verbatim>\<open>JSON.parse\<close> returns, and the options argument
  of an accessor is an arbitrary JavaScript value. Both are values of one datatype.
  \<^item> \<open>JNum n\<close> is the number with the integer value \<open>n\<close>, for the integers that a number
    holds exactly and prints in full (fractions are not part of the model); \<open>JNaN\<close> is the
    one other number that the operator \<^verbatim>\<open>+\<close> can produce here.
  \<^item> \<open>JObj kvs\<close> lists the own properties of an object in the order in which
    \<^verbatim>\<open>Object.getOwnPropertyNames\<close> reports them; \<open>map_of\<close> reads a property.
  \<^item> A string is a list of 8-bit characters.
  A member that a value inherits from a built-in prototype (\<^verbatim>\<open>constructor\<close>, \<^verbatim>\<open>toString\<close>, ...)
  is a function, which is no value of this datatype: a read of such a member by
  \<^verbatim>\<open>resolveValue\<close> ends the modelled call with \<open>Inherited\<close>.
\<close>

datatype jsval =
    JUndefined
  | JNull
  | JBool bool
  | JNum int
  | JNaN
  | JStr string
  | JArr "jsval list"
  | JObj "(string \<times> jsval) list"

text \<open>What the source can raise.\<close>

datatype exn =
    Error string            \<comment> \<open>\<^verbatim>\<open>new Error(message)\<close>, thrown by \<^verbatim>\<open>resolveValue\<close>\<close>
  | TypeError               \<comment> \<open>a property read or a method call on \<^verbatim>\<open>null\<close> or \<^verbatim>\<open>undefined\<close>\<close>
  | RangeError              \<comment> \<open>the call stack of the engine is exhausted\<close>
  | ReferenceError string   \<comment> \<open>an identifier that no scope declares\<close>
  | HostError string string \<comment> \<open>name and message of an error raised by \<^verbatim>\<open>fs\<close> or \<^verbatim>\<open>JSON.parse\<close>\<close>
  | Inherited string        \<comment> \<open>no error of the source: see below\<close>

text \<open>\<open>Inherited k\<close> is not raised by the source. It marks a call in which a path segment \<open>k\<close>
  read a member inherited from a built-in prototype; the source goes on with that
  function, and the model says nothing about what it does then.\<close>

text \<open>\<^verbatim>\<open>if (v)\<close> and \<^verbatim>\<open>!v\<close>: the truthiness of a value. Arrays and objects are truthy,
  also when they are empty.\<close>

fun truthy :: "jsval \<Rightarrow> bool" where
  "truthy JUndefined = False"
| "truthy JNull = False"
| "truthy (JBool b) = b"
| "truthy (JNum n) = (n \<noteq> 0)"
| "truthy JNaN = False"
| "truthy (JStr s) = (s \<noteq> [])"
| "truthy (JArr xs) = True"
| "truthy (JObj kvs) = True"

text \<open>\<^verbatim>\<open>v instanceof Object\<close> and \<^verbatim>\<open>v instanceof Array\<close>: an array is an instance of both.\<close>

fun instanceofObject :: "jsval \<Rightarrow> bool" where
  "instanceofObject (JArr xs) = True"
| "instanceofObject (JObj kvs) = True"
| "instanceofObject v = False"

fun instanceofArray :: "jsval \<Rightarrow> bool" where
  "instanceofArray (JArr xs) = True"
| "instanceofArray v = False"

subsection \<open>Numbers as text\<close>

definition digitChar :: "nat \<Rightarrow> char" where
  "digitChar d = ''0123456789abcdef'' ! (d mod 16)"

fun showNat :: "nat \<Rightarrow> string" where
  "showNat n = (if n < 10 then [digitChar n] else showNat (n div 10) @ [digitChar (n mod 10)])"

declare showNat.simps [simp del]

definition showInt :: "int \<Rightarrow> string" where
  "showInt i = (if i < 0 then CHR ''-'' # showNat (nat (- i)) else showNat (nat i))"

text \<open>An array index as a property name: the decimal numeral without leading zeros.\<close>

definition digitValue :: "char \<Rightarrow> nat option" where
  "digitValue c =
     map_of [(CHR ''0'', 0), (CHR ''1'', 1), (CHR ''2'', 2), (CHR ''3'', 3), (CHR ''4'', 4),
             (CHR ''5'', 5), (CHR ''6'', 6), (CHR ''7'', 7), (CHR ''8'', 8), (CHR ''9'', 9)] c"

fun readDigits :: "nat \<Rightarrow> string \<Rightarrow> nat option" where
  "readDigits acc [] = Some acc"
| "readDigits acc (c # cs) =
     (case digitValue c of None \<Rightarrow> None | Some d \<Rightarrow> readDigits (10 * acc + d) cs)"

definition parseIndex :: "string \<Rightarrow> nat option" where
  "parseIndex s =
     (if s = [] then None
      else if hd s = CHR ''0'' \<and> tl s \<noteq> [] then None
      else readDigits 0 s)"

subsection \<open>Coercion to a string\<close>

fun joinWith :: "string \<Rightarrow> string list \<Rightarrow> string" where
  "joinWith sep [] = []"
| "joinWith sep [x] = x"
| "joinWith sep (x # y # ys) = x @ sep @ joinWith sep (y # ys)"

text \<open>\<^verbatim>\<open>String(v)\<close>, the coercion that \<^verbatim>\<open>+\<close> and \<^verbatim>\<open>String.prototype.replace\<close> apply.
  \<^verbatim>\<open>Array.prototype.join\<close> writes \<^verbatim>\<open>null\<close> and \<^verbatim>\<open>undefined\<close> elements as the empty
  string. An object is coerced by the \<^verbatim>\<open>toString\<close> it inherits; an object with an own
  property of that name, for which the source raises a \<^verbatim>\<open>TypeError\<close>, is not covered, and
  neither is a number that is printed with an exponent.\<close>

fun jsToString :: "jsval \<Rightarrow> string" where
  "jsToString JUndefined = ''undefined''"
| "jsToString JNull = ''null''"
| "jsToString (JBool b) = (if b then ''true'' else ''false'')"
| "jsToString (JNum n) = showInt n"
| "jsToString JNaN = ''NaN''"
| "jsToString (JStr s) = s"
| "jsToString (JArr xs) =
     joinWith '','' (map (\<lambda>x. if x = JNull \<or> x = JUndefined then [] else jsToString x) xs)"
| "jsToString (JObj kvs) = ''[object Object]''"

text \<open>\<^verbatim>\<open>v.toString()\<close>: the method call, which raises on \<^verbatim>\<open>null\<close> and \<^verbatim>\<open>undefined\<close>.\<close>

definition toStringMethod :: "jsval \<Rightarrow> exn + string" where
  "toStringMethod v = (if v = JNull \<or> v = JUndefined then Inl TypeError else Inr (jsToString v))"

text \<open>The operator \<^verbatim>\<open>a + b\<close>: concatenation as soon as one operand is a string, an
  array or an object, addition of numbers otherwise.\<close>

fun isStringLike :: "jsval \<Rightarrow> bool" where
  "isStringLike (JStr s) = True"
| "isStringLike (JArr xs) = True"
| "isStringLike (JObj kvs) = True"
| "isStringLike v = False"

fun toNumber :: "jsval \<Rightarrow> int option" where
  "toNumber JNull = Some 0"
| "toNumber (JBool b) = Some (if b then 1 else 0)"
| "toNumber (JNum n) = Some n"
| "toNumber v = None"

definition jsPlus :: "jsval \<Rightarrow> jsval \<Rightarrow> jsval" where
  "jsPlus a b =
     (if isStringLike a \<or> isStringLike b then JStr (jsToString a @ jsToString b)
      else (case (toNumber a, toNumber b) of
              (Some x, Some y) \<Rightarrow> JNum (x + y)
            | _ \<Rightarrow> JNaN))"

subsection \<open>Own properties\<close>

text \<open>\<^verbatim>\<open>Object.getOwnPropertyNames(v)\<close> for an array or an object.\<close>

fun getOwnPropertyNames :: "jsval \<Rightarrow> string list" where
  "getOwnPropertyNames (JObj kvs) = map fst kvs"
| "getOwnPropertyNames (JArr xs) = map showNat [0 ..< length xs] @ [''length'']"
| "getOwnPropertyNames v = []"

text \<open>\<^verbatim>\<open>v[k]\<close> for an own property, on a value that is neither \<^verbatim>\<open>null\<close> nor \<^verbatim>\<open>undefined\<close>;
  \<^verbatim>\<open>undefined\<close> when \<open>v\<close> has no own property \<open>k\<close>.\<close>

fun own :: "jsval \<Rightarrow> string \<Rightarrow> jsval" where
  "own (JObj kvs) k = (case map_of kvs k of Some v \<Rightarrow> v | None \<Rightarrow> JUndefined)"
| "own (JArr xs) k =
     (if k = ''length'' then JNum (int (length xs))
      else (case parseIndex k of
              Some i \<Rightarrow> if i < length xs then xs ! i else JUndefined
            | None \<Rightarrow> JUndefined))"
| "own (JStr s) k =
     (if k = ''length'' then JNum (int (length s))
      else (case parseIndex k of
              Some i \<Rightarrow> if i < length s then JStr [s ! i] else JUndefined
            | None \<Rightarrow> JUndefined))"
| "own v k = JUndefined"

text \<open>The string-named members of the built-in prototypes, as ECMAScript defines them
  (up to the 2024 edition, Annex B included).\<close>

definition objectPrototype :: "string list" where
  "objectPrototype =
     [''constructor'', ''hasOwnProperty'', ''isPrototypeOf'', ''propertyIsEnumerable'',
      ''toLocaleString'', ''toString'', ''valueOf'', ''__proto__'', ''__defineGetter__'',
      ''__defineSetter__'', ''__lookupGetter__'', ''__lookupSetter__'']"

definition arrayPrototype :: "string list" where
  "arrayPrototype =
     [''at'', ''concat'', ''copyWithin'', ''entries'', ''every'', ''fill'', ''filter'', ''find'',
      ''findIndex'', ''findLast'', ''findLastIndex'', ''flat'', ''flatMap'', ''forEach'',
      ''includes'', ''indexOf'', ''join'', ''keys'', ''lastIndexOf'', ''map'', ''pop'', ''push'',
      ''reduce'', ''reduceRight'', ''reverse'', ''shift'', ''slice'', ''some'', ''sort'',
      ''splice'', ''toReversed'', ''toSorted'', ''toSpliced'', ''unshift'', ''values'', ''with'']"

definition stringPrototype :: "string list" where
  "stringPrototype =
     [''anchor'', ''at'', ''big'', ''blink'', ''bold'', ''charAt'', ''charCodeAt'',
      ''codePointAt'', ''concat'', ''endsWith'', ''fixed'', ''fontcolor'', ''fontsize'',
      ''includes'', ''indexOf'', ''isWellFormed'', ''italics'', ''lastIndexOf'', ''link'',
      ''localeCompare'', ''match'', ''matchAll'', ''normalize'', ''padEnd'', ''padStart'',
      ''repeat'', ''replace'', ''replaceAll'', ''search'', ''slice'', ''small'', ''split'',
      ''startsWith'', ''strike'', ''sub'', ''substr'', ''substring'', ''sup'',
      ''toLocaleLowerCase'', ''toLocaleUpperCase'', ''toLowerCase'', ''toUpperCase'',
      ''toWellFormed'', ''trim'', ''trimEnd'', ''trimLeft'', ''trimRight'', ''trimStart'']"

definition numberPrototype :: "string list" where
  "numberPrototype = [''toExponential'', ''toFixed'', ''toPrecision'']"

fun prototypeNames :: "jsval \<Rightarrow> string list" where
  "prototypeNames (JObj kvs) = objectPrototype"
| "prototypeNames (JArr xs) = arrayPrototype @ objectPrototype"
| "prototypeNames (JStr s) = stringPrototype @ objectPrototype"
| "prototypeNames (JNum n) = numberPrototype @ objectPrototype"
| "prototypeNames JNaN = numberPrototype @ objectPrototype"
| "prototypeNames (JBool b) = objectPrototype"
| "prototypeNames v = []"

fun hasOwnProperty :: "jsval \<Rightarrow> string \<Rightarrow> bool" where
  "hasOwnProperty (JObj kvs) k = (map_of kvs k \<noteq> None)"
| "hasOwnProperty (JArr xs) k =
     (k = ''length'' \<or> (case parseIndex k of Some i \<Rightarrow> i < length xs | None \<Rightarrow> False))"
| "hasOwnProperty (JStr s) k =
     (k = ''length'' \<or> (case parseIndex k of Some i \<Rightarrow> i < length s | None \<Rightarrow> False))"
| "hasOwnProperty v k = False"

text \<open>The read \<^verbatim>\<open>v[k]\<close> finds no own property and goes on to a member of a prototype.\<close>

definition inheritedRead :: "jsval \<Rightarrow> string \<Rightarrow> bool" where
  "inheritedRead v k = (\<not> hasOwnProperty v k \<and> k \<in> set (prototypeNames v))"

text \<open>\<^verbatim>\<open>v[k]\<close> as \<^verbatim>\<open>resolveValue\<close> evaluates it, for a caller-supplied \<open>k\<close>.\<close>

definition getProp :: "jsval \<Rightarrow> string \<Rightarrow> exn + jsval" where
  "getProp v k =
     (if v = JNull \<or> v = JUndefined then Inl TypeError
      else if inheritedRead v k then Inl (Inherited k)
      else Inr (own v k))"

text \<open>\<^verbatim>\<open>v[k] = x\<close> for a property that \<open>v\<close> has: the entry that \<open>map_of\<close> reads is the
  one that is written.\<close>

fun updateFirst :: "string \<Rightarrow> jsval \<Rightarrow> (string \<times> jsval) list \<Rightarrow> (string \<times> jsval) list" where
  "updateFirst k x [] = []"
| "updateFirst k x (kv # kvs) =
     (if fst kv = k then (k, x) # kvs else kv # updateFirst k x kvs)"

fun putProp :: "jsval \<Rightarrow> string \<Rightarrow> jsval \<Rightarrow> jsval" where
  "putProp (JObj kvs) k x = JObj (updateFirst k x kvs)"
| "putProp (JArr xs) k x =
     (case parseIndex k of Some i \<Rightarrow> JArr (xs[i := x]) | None \<Rightarrow> JArr xs)"
| "putProp v k x = v"

text \<open>
  The document is a tree: \<^verbatim>\<open>JSON.parse\<close> shares no object between two places, and the
  source never replaces an array or an object by another one. So a reference to an
  object of the document is the list of property names that leads to it.
\<close>

fun valueAt :: "jsval \<Rightarrow> string list \<Rightarrow> jsval" where
  "valueAt t [] = t"
| "valueAt t (k # ks) = valueAt (own t k) ks"

fun assignAt :: "jsval \<Rightarrow> string list \<Rightarrow> jsval \<Rightarrow> jsval" where
  "assignAt t [] x = x"
| "assignAt t (k # ks) x = putProp t k (assignAt (own t k) ks x)"

text \<open>\<^verbatim>\<open>idx.split('.')\<close>\<close>

fun splitDot :: "string \<Rightarrow> string list" where
  "splitDot [] = [[]]"
| "splitDot (c # cs) =
     (if c = CHR ''.'' then [] # splitDot cs
      else (case splitDot cs of [] \<Rightarrow> [[c]] | s # ss \<Rightarrow> (c # s) # ss))"

section \<open>The configuration builder\<close>

subsection \<open>resolveValue\<close>

definition resolutionMessage :: "string \<Rightarrow> string \<Rightarrow> string" where
  "resolutionMessage idx i = ''Resolution error for index ('' @ idx @ '') at fragment '' @ i"

text \<open>The body of the \<^verbatim>\<open>forEach\<close> over the segments: \<open>val\<close> is the variable the callback
  assigns.\<close>

fun resolveSegments :: "string \<Rightarrow> jsval \<Rightarrow> string list \<Rightarrow> exn + jsval" where
  "resolveSegments idx val [] = Inr val"
| "resolveSegments idx val (i # rest) =
     (case getProp val i of
        Inl e \<Rightarrow> Inl e
      | Inr v \<Rightarrow>
          if \<not> truthy v then Inl (Error (resolutionMessage idx i))
          else resolveSegments idx v rest)"

definition resolveValue :: "jsval \<Rightarrow> string \<Rightarrow> exn + jsval" where
  "resolveValue configObject idx = resolveSegments idx configObject (splitDot idx)"

subsection \<open>Placeholders\<close>

text \<open>
  \<^verbatim>\<open>new RegExp('\\$\{([a-z\.-]+)\}', 'i').exec(parsed)\<close>: the leftmost place where
  \<^verbatim>\<open>${\<close>, one or more letters, dots and dashes, and \<^verbatim>\<open>}\<close> follow each other. The result is
  the token (\<^verbatim>\<open>search[0]\<close>) and the path between the braces (\<^verbatim>\<open>search[1]\<close>).
\<close>

definition pathChars :: "char list" where
  "pathChars = ''abcdefghijklmnopqrstuvwxyzABCDEFGHIJKLMNOPQRSTUVWXYZ.-''"

definition matchHere :: "string \<Rightarrow> (string \<times> string) option" where
  "matchHere s =
     (case s of
        c1 # c2 # rest \<Rightarrow>
          if c1 = CHR ''$'' \<and> c2 = CHR ''{'' then
            (let p = takeWhile (\<lambda>c. c \<in> set pathChars) rest in
             case dropWhile (\<lambda>c. c \<in> set pathChars) rest of
               c3 # rest' \<Rightarrow>
                 if p \<noteq> [] \<and> c3 = CHR ''}'' then Some (''${'' @ p @ ''}'', p) else None
             | [] \<Rightarrow> None)
          else None
      | _ \<Rightarrow> None)"

fun execPlaceholder :: "string \<Rightarrow> (string \<times> string) option" where
  "execPlaceholder [] = None"
| "execPlaceholder (c # cs) =
     (case matchHere (c # cs) of Some m \<Rightarrow> Some m | None \<Rightarrow> execPlaceholder cs)"

text \<open>
  \<^verbatim>\<open>parsed.replace(new RegExp(regexQuote(token), 'g'), replace)\<close>. The quoted token matches
  itself and nothing else, and every match is replaced. The replacement is a template:
  \<^verbatim>\<open>$$\<close> stands for a dollar sign, \<^verbatim>\<open>$&\<close> for the match, \<^verbatim>\<open>$`\<close> for the text before the
  match and \<^verbatim>\<open>$'\<close> for the text after it (the search has no groups, so \<^verbatim>\<open>$1\<close> stays as it
  is).
\<close>

fun getSubstitution :: "string \<Rightarrow> string \<Rightarrow> string \<Rightarrow> string \<Rightarrow> string" where
  "getSubstitution matched preceding following [] = []"
| "getSubstitution matched preceding following [c] = [c]"
| "getSubstitution matched preceding following (c # d # r) =
     (if c = CHR ''$'' \<and> d = CHR ''$'' then
        CHR ''$'' # getSubstitution matched preceding following r
      else if c = CHR ''$'' \<and> d = CHR ''&'' then
        matched @ getSubstitution matched preceding following r
      else if c = CHR ''$'' \<and> d = CHR 0x60 then
        preceding @ getSubstitution matched preceding following r
      else if c = CHR ''$'' \<and> d = CHR 0x27 then
        following @ getSubstitution matched preceding following r
      else c # getSubstitution matched preceding following (d # r))"

fun replaceFrom :: "string \<Rightarrow> string \<Rightarrow> string \<Rightarrow> string \<Rightarrow> string" where
  "replaceFrom token template front [] = []"
| "replaceFrom token template front (c # cs) =
     (if token \<noteq> [] \<and> take (length token) (c # cs) = token then
        getSubstitution token front (drop (length token) (c # cs)) template
          @ replaceFrom token template (front @ token) (drop (length token) (c # cs))
      else c # replaceFrom token template (front @ [c]) cs)"

definition replaceAll :: "string \<Rightarrow> string \<Rightarrow> string \<Rightarrow> string" where
  "replaceAll parsed token template = replaceFrom token template [] parsed"

subsection \<open>The builder and its logger\<close>

text \<open>The methods of the injected logger that the builder calls, with the level each one
  passes to the writer.\<close>

datatype logmethod = LogDebug | LogInfo | LogWarning | LogError | LogCritical | LogEmergency

fun level :: "logmethod \<Rightarrow> int" where
  "level LogDebug = - 1"
| "level LogInfo = 0"
| "level LogWarning = 1"
| "level LogError = 2"
| "level LogCritical = 3"
| "level LogEmergency = 4"

text \<open>A call of the logger: the method, the message and the replacements.\<close>

datatype logcall = LogCall logmethod string "string list"

text \<open>The fields of a \<^verbatim>\<open>ConfigBuilder\<close>. \<open>configCached\<close> lists the properties of the
  cache object, \<open>logged\<close> the calls made on the logger, oldest first.\<close>

record builder =
  configObject :: jsval
  configCached :: "(string \<times> jsval) list"
  logged :: "logcall list"

definition configFileDefault :: string where
  "configFileDefault = ''./.gulp/default-config.json''"

definition logCall :: "logmethod \<Rightarrow> string \<Rightarrow> string list \<Rightarrow> builder \<Rightarrow> builder" where
  "logCall m msg args st = st\<lparr>logged := logged st @ [LogCall m msg args]\<rparr>"

definition maxIterations :: nat where
  "maxIterations = 20"

definition dquote :: string where
  "dquote = [CHR 0x22]"

subsection \<open>lookup and resolveReplacements\<close>

text \<open>
  \<^verbatim>\<open>lookup\<close> and the functions below it call each other, and nothing in the source bounds
  the depth of these calls: the counter \<^verbatim>\<open>i\<close> of \<^verbatim>\<open>resolveReplacementsForScalar\<close> is local
  to one call. The engine bounds it: a call that finds the stack exhausted raises a
  \<^verbatim>\<open>RangeError\<close>. The first argument \<open>n\<close> is the number of nested calls of \<^verbatim>\<open>lookup\<close> and
  of \<^verbatim>\<open>resolveReplacementsForObject\<close> that the stack still has room for.

  An array or an object is passed by reference: the argument \<open>ref\<close> is the path of the
  object in \<open>configObject\<close>, and what the source writes into the object is written into
  the document of the builder. A raise ends the call; the state it leaves is not
  tracked.

  \<^verbatim>\<open>search.length < 2\<close> is never true (the expression has one group), so the loop ends
  when no placeholder is left or when \<^verbatim>\<open>i++ > maxIterations\<close> holds.
\<close>

function (sequential)
    lookup :: "nat \<Rightarrow> builder \<Rightarrow> string \<Rightarrow> exn + (jsval \<times> builder)"
and resolveReplacements ::
      "nat \<Rightarrow> builder \<Rightarrow> string list \<Rightarrow> jsval \<Rightarrow> exn + (jsval \<times> builder)"
and resolveReplacementsForScalar :: "nat \<Rightarrow> builder \<Rightarrow> jsval \<Rightarrow> exn + (jsval \<times> builder)"
and scalarLoop :: "nat \<Rightarrow> builder \<Rightarrow> nat \<Rightarrow> string \<Rightarrow> exn + (jsval \<times> builder)"
and resolveReplacementsForArray ::
      "nat \<Rightarrow> builder \<Rightarrow> jsval list \<Rightarrow> exn + (jsval list \<times> builder)"
and resolveReplacementsForObject :: "nat \<Rightarrow> builder \<Rightarrow> string list \<Rightarrow> exn + builder"
and forEachProperty :: "nat \<Rightarrow> builder \<Rightarrow> string list \<Rightarrow> string list \<Rightarrow> exn + builder"
where
  "lookup 0 st idx = Inl RangeError"
| "lookup (Suc n) st idx =
     (let st1 = logCall LogDebug (''Resolving '' @ dquote @ ''%s'' @ dquote) [idx] st in
      case resolveValue (configObject st1) idx of
        Inl e \<Rightarrow> Inl e
      | Inr val \<Rightarrow> resolveReplacements n st1 (splitDot idx) val)"
| "resolveReplacements n st ref val =
     (if instanceofObject val then
        (case resolveReplacementsForObject n st ref of
           Inl e \<Rightarrow> Inl e
         | Inr st' \<Rightarrow> Inr (valueAt (configObject st') ref, st'))
      else if instanceofArray val then
        (case resolveReplacementsForArray n st (case val of JArr xs \<Rightarrow> xs | _ \<Rightarrow> []) of
           Inl e \<Rightarrow> Inl e
         | Inr (ys, st') \<Rightarrow> Inr (JArr ys, st'))
      else resolveReplacementsForScalar n st val)"
| "resolveReplacementsForScalar n st val =
     (case toStringMethod val of
        Inl e \<Rightarrow> Inl e
      | Inr parsed \<Rightarrow> scalarLoop n st 0 parsed)"
| "scalarLoop n st i parsed =
     (case execPlaceholder parsed of
        None \<Rightarrow> Inr (JStr parsed, st)
      | Some (token, path) \<Rightarrow>
          if i > maxIterations then Inr (JStr parsed, st)
          else (case lookup n st path of
                  Inl e \<Rightarrow> Inl e
                | Inr (replace, st') \<Rightarrow>
                    scalarLoop n st' (i + 1)
                      (if truthy replace then replaceAll parsed token (jsToString replace)
                       else parsed)))"
| "resolveReplacementsForArray n st [] = Inr ([], st)"
| "resolveReplacementsForArray n st (v # vs) =
     (case resolveReplacementsForScalar n st v of
        Inl e \<Rightarrow> Inl e
      | Inr (y, st') \<Rightarrow>
          (case resolveReplacementsForArray n st' vs of
             Inl e \<Rightarrow> Inl e
           | Inr (ys, st'') \<Rightarrow> Inr (y # ys, st'')))"
| "resolveReplacementsForObject n st ref =
     forEachProperty n st ref (getOwnPropertyNames (valueAt (configObject st) ref))"
| "forEachProperty n st ref [] = Inr st"
| "forEachProperty n st ref (property # rest) =
     (let v = own (valueAt (configObject st) ref) property in
      if instanceofObject v then
        (case n of
           0 \<Rightarrow> Inl RangeError
         | Suc m \<Rightarrow>
             (case resolveReplacementsForObject m st (ref @ [property]) of
                Inl e \<Rightarrow> Inl e
              | Inr st' \<Rightarrow> forEachProperty n st' ref rest))
      else if instanceofArray v then
        (case resolveReplacementsForArray n st (case v of JArr xs \<Rightarrow> xs | _ \<Rightarrow> []) of
           Inl e \<Rightarrow> Inl e
         | Inr (ys, st') \<Rightarrow>
             forEachProperty n
               (st'\<lparr>configObject := assignAt (configObject st') (ref @ [property]) (JArr ys)\<rparr>)
               ref rest)
      else if (case v of JStr s \<Rightarrow> True | _ \<Rightarrow> False) then
        (case resolveReplacementsForScalar n st v of
           Inl e \<Rightarrow> Inl e
         | Inr (y, st') \<Rightarrow>
             forEachProperty n
               (st'\<lparr>configObject := assignAt (configObject st') (ref @ [property]) y\<rparr>)
               ref rest)
      else forEachProperty n st ref rest)"
  by pat_completeness auto

termination
  by (relation "inv_image (less_than <*lex*> less_than <*lex*> less_than)
       (\<lambda>x. case x of
          Inl (Inl (n, st, idx)) \<Rightarrow> (n, 0::nat, 0::nat)
        | Inl (Inr (Inl (n, st, r, v))) \<Rightarrow> (n, 6, 0)
        | Inl (Inr (Inr (n, st, v))) \<Rightarrow> (n, 2, 0)
        | Inr (Inl (Inl (n, st, i, p))) \<Rightarrow> (n, 1, Suc maxIterations - i)
        | Inr (Inl (Inr (n, st, vs))) \<Rightarrow> (n, 3, length vs)
        | Inr (Inr (Inl (n, st, r))) \<Rightarrow> (n, 5, 0)
        | Inr (Inr (Inr (n, st, r, ps))) \<Rightarrow> (n, 4, length ps))")
     auto

declare scalarLoop.simps [simp del]

subsection \<open>The cache\<close>

text \<open>\<^verbatim>\<open>JSON.stringify\<close>; \<open>None\<close> is the result \<^verbatim>\<open>undefined\<close>.\<close>

definition quoteChar :: "char \<Rightarrow> string" where
  "quoteChar c =
     (if c = CHR 0x22 then [CHR 0x5C, CHR 0x22]
      else if c = CHR 0x5C then [CHR 0x5C, CHR 0x5C]
      else if c = CHR 0x08 then [CHR 0x5C, CHR ''b'']
      else if c = CHR 0x09 then [CHR 0x5C, CHR ''t'']
      else if c = CHR 0x0A then [CHR 0x5C, CHR ''n'']
      else if c = CHR 0x0C then [CHR 0x5C, CHR ''f'']
      else if c = CHR 0x0D then [CHR 0x5C, CHR ''r'']
      else if (of_char c :: nat) < 32 then
        [CHR 0x5C, CHR ''u'', CHR ''0'', CHR ''0'',
         digitChar (of_char c div 16), digitChar (of_char c mod 16)]
      else [c])"

definition quoteJSONString :: "string \<Rightarrow> string" where
  "quoteJSONString s = dquote @ concat (map quoteChar s) @ dquote"

fun JSON_stringify :: "jsval \<Rightarrow> string option" where
  "JSON_stringify JUndefined = None"
| "JSON_stringify JNull = Some ''null''"
| "JSON_stringify (JBool b) = Some (if b then ''true'' else ''false'')"
| "JSON_stringify (JNum n) = Some (showInt n)"
| "JSON_stringify JNaN = Some ''null''"
| "JSON_stringify (JStr s) = Some (quoteJSONString s)"
| "JSON_stringify (JArr xs) =
     Some (''['' @ joinWith '',''
             (map (\<lambda>x. case JSON_stringify x of None \<Rightarrow> ''null'' | Some s \<Rightarrow> s) xs) @ '']'')"
| "JSON_stringify (JObj kvs) =
     Some (''{'' @ joinWith '',''
             (concat (map (\<lambda>kv. case JSON_stringify (snd kv) of
                                   None \<Rightarrow> []
                                 | Some s \<Rightarrow> [quoteJSONString (fst kv) @ '':'' @ s]) kvs)) @ ''}'')"

text \<open>\<^verbatim>\<open>key.replace(/\W/g, '')\<close> keeps the word characters.\<close>

definition wordChars :: "char list" where
  "wordChars = ''abcdefghijklmnopqrstuvwxyzABCDEFGHIJKLMNOPQRSTUVWXYZ0123456789_''"

definition stripNonWord :: "string \<Rightarrow> string" where
  "stripNonWord s = filter (\<lambda>c. c \<in> set wordChars) s"

text \<open>\<^verbatim>\<open>buildCacheIndex\<close> reads \<^verbatim>\<open>arguments\<close>; both callers pass \<^verbatim>\<open>idx\<close> and \<^verbatim>\<open>opt\<close>.\<close>

definition buildCacheIndex :: "jsval list \<Rightarrow> string" where
  "buildCacheIndex arguments =
     stripNonWord
       (foldl (\<lambda>key (i, k).
                 key @ ''__'' @ showNat i @ ''_'' @
                 (case JSON_stringify k of None \<Rightarrow> ''undefined'' | Some s \<Rightarrow> s))
          ''cache'' (enumerate 0 arguments))"

definition lookupCachedValue :: "builder \<Rightarrow> string \<Rightarrow> jsval \<Rightarrow> jsval" where
  "lookupCachedValue st idx opt =
     (let key = buildCacheIndex [JStr idx, opt] in
      case map_of (configCached st) key of
        Some v \<Rightarrow> if truthy v then v else JNull
      | None \<Rightarrow> JNull)"

text \<open>\<^verbatim>\<open>this.configCached[key] = val\<close> overwrites the property or adds it. The entry holds
  the value as it is at the time of the call; for an object of the document, which the
  source stores by reference, that is its content until a later resolution rewrites one
  of its strings.\<close>

definition setProperty :: "string \<Rightarrow> jsval \<Rightarrow> (string \<times> jsval) list \<Rightarrow> (string \<times> jsval) list" where
  "setProperty key val props =
     (if map_of props key = None then props @ [(key, val)] else updateFirst key val props)"

definition assignCachedValue :: "builder \<Rightarrow> string \<Rightarrow> jsval \<Rightarrow> jsval \<Rightarrow> builder" where
  "assignCachedValue st idx opt val =
     (let key = buildCacheIndex [JStr idx, opt] in
      st\<lparr>configCached := setProperty key val (configCached st)\<rparr>)"

subsection \<open>Options\<close>

definition applyOptionsOnScalar :: "jsval \<Rightarrow> jsval \<Rightarrow> jsval" where
  "applyOptionsOnScalar val opt =
     (let val1 = (if truthy opt \<and> truthy (own opt ''pre'') then jsPlus (own opt ''pre'') val
                  else val)
      in if truthy opt \<and> truthy (own opt ''post'') then jsPlus val1 (own opt ''post'')
         else val1)"

fun applyOptionsOnArray :: "jsval list \<Rightarrow> jsval \<Rightarrow> exn + jsval list" where
  "applyOptionsOnArray [] opt = Inr []"
| "applyOptionsOnArray (v # vs) opt =
     (case toStringMethod v of
        Inl e \<Rightarrow> Inl e
      | Inr s \<Rightarrow>
          (case applyOptionsOnArray vs opt of
             Inl e \<Rightarrow> Inl e
           | Inr ys \<Rightarrow> Inr (applyOptionsOnScalar (JStr s) opt # ys)))"

definition applyOptions :: "jsval \<Rightarrow> jsval \<Rightarrow> exn + jsval" where
  "applyOptions val opt =
     (case val of
        JArr xs \<Rightarrow> (case applyOptionsOnArray xs opt of Inl e \<Rightarrow> Inl e | Inr ys \<Rightarrow> Inr (JArr ys))
      | _ \<Rightarrow> Inr (applyOptionsOnScalar val opt))"

subsection \<open>value and build\<close>

definition buildIndex :: "jsval \<Rightarrow> string \<Rightarrow> string" where
  "buildIndex ctx idx =
     (if truthy ctx then jsToString (jsPlus (jsPlus ctx (JStr ''.'')) (JStr idx)) else idx)"

text \<open>The method \<^verbatim>\<open>value\<close> of the builder.\<close>

definition valueFor :: "nat \<Rightarrow> builder \<Rightarrow> jsval \<Rightarrow> string \<Rightarrow> jsval \<Rightarrow> exn + (jsval \<times> builder)" where
  "valueFor n st ctx idx0 opt =
     (let idx = buildIndex ctx idx0;
          val = lookupCachedValue st idx opt
      in if truthy val then Inr (val, st)
         else (case lookup n st idx of
                 Inl e \<Rightarrow> Inl e
               | Inr (val1, st1) \<Rightarrow>
                   (case applyOptions val1 opt of
                      Inl e \<Rightarrow> Inl e
                    | Inr val2 \<Rightarrow> Inr (val2, assignCachedValue st1 idx opt val2))))"

text \<open>The loop of \<^verbatim>\<open>build\<close>; \<open>acc\<close> is the variable \<^verbatim>\<open>value\<close>, which starts undefined.\<close>

fun buildLoop ::
  "nat \<Rightarrow> builder \<Rightarrow> jsval \<Rightarrow> jsval \<Rightarrow> string list \<Rightarrow> exn + (jsval \<times> builder)" where
  "buildLoop n st ctx acc [] = Inr (acc, st)"
| "buildLoop n st ctx acc (idx # indexes) =
     (case valueFor n st ctx idx JUndefined of
        Inl e \<Rightarrow> Inl e
      | Inr (v, st') \<Rightarrow> buildLoop n st' ctx (jsPlus acc v) indexes)"

definition build :: "nat \<Rightarrow> builder \<Rightarrow> jsval \<Rightarrow> string list \<Rightarrow> exn + (jsval \<times> builder)" where
  "build n st ctx indexes = buildLoop n st ctx JUndefined indexes"

subsection \<open>Loading the configuration\<close>

text \<open>
  What the builder asks of the host: \<^verbatim>\<open>fs.statSync(file).isFile()\<close>, \<^verbatim>\<open>fs.readFileSync\<close>
  and \<^verbatim>\<open>JSON.parse\<close>. Each one returns its result or raises an error, given by its name
  and its message. \<^verbatim>\<open>fs.statSync\<close> raises when the path names nothing.
\<close>

record host =
  statSync_isFile :: "string \<Rightarrow> (string \<times> string) + bool"
  readFileSync :: "string \<Rightarrow> (string \<times> string) + string"
  JSON_parse :: "string \<Rightarrow> (string \<times> string) + jsval"

definition readAndParseConfig :: "host \<Rightarrow> string \<Rightarrow> (string \<times> string) + jsval" where
  "readAndParseConfig h file =
     (case readFileSync h file of
        Inl e \<Rightarrow> Inl e
      | Inr contents \<Rightarrow> JSON_parse h contents)"

definition loadConfigFile :: "host \<Rightarrow> builder \<Rightarrow> string \<Rightarrow> string \<Rightarrow> bool \<times> builder" where
  "loadConfigFile h st file cxt =
     (case readAndParseConfig h file of
        Inr obj \<Rightarrow>
          (True,
           logCall LogInfo (''Loaded %s configuration file: '' @ dquote @ ''%s'' @ dquote)
             [cxt, file] (st\<lparr>configObject := obj\<rparr>))
      | Inl (name, message) \<Rightarrow>
          (False,
           logCall LogError
             (''Unable to load %s config file '' @ dquote @ ''%s'' @ dquote @ '': [%s] %s'')
             [cxt, file, name, message] st))"

text \<open>The argument \<open>file\<close> is \<open>None\<close> when the caller passes nothing, which the default
  value of the parameter turns into \<^verbatim>\<open>false\<close>.\<close>

definition loadConfig :: "host \<Rightarrow> builder \<Rightarrow> string option \<Rightarrow> exn + builder" where
  "loadConfig h st file0 =
     (case (case file0 of
              None \<Rightarrow> Inr ''./.gulp.json''
            | Some f \<Rightarrow>
                (case statSync_isFile h f of
                   Inl (name, message) \<Rightarrow> Inl (HostError name message)
                 | Inr isFile \<Rightarrow> Inr (if \<not> isFile then ''./.gulp.json'' else f))) of
        Inl e \<Rightarrow> Inl e
      | Inr file \<Rightarrow>
          (case loadConfigFile h st file ''user'' of
             (True, st1) \<Rightarrow> Inr st1
           | (False, st1) \<Rightarrow>
               (case loadConfigFile h st1 configFileDefault ''default'' of
                  (True, st2) \<Rightarrow> Inr st2
                | (False, st2) \<Rightarrow>
                    Inr (logCall LogEmergency
                           ''Could not load user config or default config files.'' [] st2))))"

text \<open>The constructor of \<^verbatim>\<open>ConfigBuilder\<close>.\<close>

definition newBuilder :: builder where
  "newBuilder = \<lparr>configObject = JObj [], configCached = [], logged = []\<rparr>"

definition constructor :: "host \<Rightarrow> string option \<Rightarrow> exn + builder" where
  "constructor h configFile = loadConfig h newBuilder configFile"

section \<open>The configuration fetcher\<close>

text \<open>The accessors of \<^verbatim>\<open>ConfigFetcher\<close>; \<open>reader\<close> is the builder it was constructed with.
  The accessor \<^verbatim>\<open>file\<close> is \<open>fileOf\<close> here.\<close>

definition glob :: "nat \<Rightarrow> builder \<Rightarrow> string \<Rightarrow> jsval \<Rightarrow> exn + (jsval \<times> builder)" where
  "glob n reader index opts = valueFor n reader (JStr ''globs'') index opts"

definition path :: "nat \<Rightarrow> builder \<Rightarrow> string \<Rightarrow> jsval \<Rightarrow> exn + (jsval \<times> builder)" where
  "path n reader index opts = valueFor n reader (JStr ''paths'') index opts"

definition fileOf :: "nat \<Rightarrow> builder \<Rightarrow> string \<Rightarrow> jsval \<Rightarrow> exn + (jsval \<times> builder)" where
  "fileOf n reader index opts = valueFor n reader (JStr ''files'') index opts"

definition option :: "nat \<Rightarrow> builder \<Rightarrow> string \<Rightarrow> jsval \<Rightarrow> exn + (jsval \<times> builder)" where
  "option n reader index opts = valueFor n reader (JStr ''options'') index opts"

text \<open>\<^verbatim>\<open>indexes.map(accessor)\<close>: \<^verbatim>\<open>map\<close> calls the accessor with the element and its position,
  so the position arrives as the options argument.\<close>

fun arrayMap ::
  "(builder \<Rightarrow> string \<Rightarrow> jsval \<Rightarrow> exn + (jsval \<times> builder)) \<Rightarrow> builder \<Rightarrow> nat \<Rightarrow> string list
     \<Rightarrow> exn + (jsval list \<times> builder)" where
  "arrayMap accessor reader i [] = Inr ([], reader)"
| "arrayMap accessor reader i (index # indexes) =
     (case accessor reader index (JNum (int i)) of
        Inl e \<Rightarrow> Inl e
      | Inr (v, reader') \<Rightarrow>
          (case arrayMap accessor reader' (Suc i) indexes of
             Inl e \<Rightarrow> Inl e
           | Inr (vs, reader'') \<Rightarrow> Inr (v # vs, reader'')))"

text \<open>\<^verbatim>\<open>Array.prototype.concat(...items)\<close>: an array item contributes its elements, any
  other item itself.\<close>

definition arrayConcat :: "jsval list \<Rightarrow> jsval" where
  "arrayConcat items = JArr (concat (map (\<lambda>v. case v of JArr xs \<Rightarrow> xs | _ \<Rightarrow> [v]) items))"

definition collect ::
  "(builder \<Rightarrow> string \<Rightarrow> jsval \<Rightarrow> exn + (jsval \<times> builder)) \<Rightarrow> builder \<Rightarrow> string list
     \<Rightarrow> exn + (jsval \<times> builder)" where
  "collect accessor reader indexes =
     (case arrayMap accessor reader 0 indexes of
        Inl e \<Rightarrow> Inl e
      | Inr (vs, reader') \<Rightarrow> Inr (arrayConcat vs, reader'))"

definition globs :: "nat \<Rightarrow> builder \<Rightarrow> string list \<Rightarrow> exn + (jsval \<times> builder)" where
  "globs n reader indexes = collect (glob n) reader indexes"

definition paths :: "nat \<Rightarrow> builder \<Rightarrow> string list \<Rightarrow> exn + (jsval \<times> builder)" where
  "paths n reader indexes = collect (path n) reader indexes"

definition files :: "nat \<Rightarrow> builder \<Rightarrow> string list \<Rightarrow> exn + (jsval \<times> builder)" where
  "files n reader indexes = collect (fileOf n) reader indexes"

text \<open>
  \<^verbatim>\<open>options (idx, opt)\<close> evaluates \<^verbatim>\<open>idxs.map(this.option.bind(this))\<close>. The identifiers that
  the body can read are its parameters; the module and the global object declare no
  \<^verbatim>\<open>idxs\<close>. Reading an identifier that no scope declares raises a \<^verbatim>\<open>ReferenceError\<close>.
\<close>

definition resolveIdentifier :: "(string \<times> jsval) list \<Rightarrow> string \<Rightarrow> exn + jsval" where
  "resolveIdentifier scope name =
     (case map_of scope name of None \<Rightarrow> Inl (ReferenceError name) | Some v \<Rightarrow> Inr v)"

definition options :: "nat \<Rightarrow> builder \<Rightarrow> jsval \<Rightarrow> jsval \<Rightarrow> exn + (jsval \<times> builder)" where
  "options n reader idx opt =
     (case resolveIdentifier [(''idx'', idx), (''opt'', opt)] ''idxs'' of
        Inl e \<Rightarrow> Inl e
      | Inr idxs \<Rightarrow>
          (case idxs of
             JArr xs \<Rightarrow> collect (option n) reader (map jsToString xs)
           | _ \<Rightarrow> Inl TypeError))"

definition buildGlob :: "nat \<Rightarrow> builder \<Rightarrow> string list \<Rightarrow> exn + (jsval \<times> builder)" where
  "buildGlob n reader indexes = build n reader (JStr ''globs'') indexes"

definition buildPath :: "nat \<Rightarrow> builder \<Rightarrow> string list \<Rightarrow> exn + (jsval \<times> builder)" where
  "buildPath n reader indexes = build n reader (JStr ''paths'') indexes"

definition buildFile :: "nat \<Rightarrow> builder \<Rightarrow> string list \<Rightarrow> exn + (jsval \<times> builder)" where
  "buildFile n reader indexes = build n reader (JStr ''files'') indexes"

definition buildOption :: "nat \<Rightarrow> builder \<Rightarrow> string list \<Rightarrow> exn + (jsval \<times> builder)" where
  "buildOption n reader indexes = build n reader (JStr ''options'') indexes"

section \<open>Vocabulary of the properties\<close>

text \<open>A builder whose document is \<open>t\<close>, with an empty cache and a silent logger: the
  state after a successful load.\<close>

definition loaded :: "jsval \<Rightarrow> builder" where
  "loaded t = \<lparr>configObject = t, configCached = [], logged = []\<rparr>"

text \<open>What a caller sees of a call: the exception or the returned value.\<close>

definition outcome :: "exn + ('a \<times> builder) \<Rightarrow> exn + 'a" where
  "outcome r = map_sum id fst r"

text \<open>The text that the field \<open>field\<close> of an options value contributes: the field when it
  is present and truthy, nothing otherwise.\<close>

definition decoration :: "jsval \<Rightarrow> string \<Rightarrow> string" where
  "decoration opt field =
     (if truthy opt \<and> truthy (own opt field) then jsToString (own opt field) else [])"


text \<open>The documents of the examples.\<close>

definition emptyReplacementDoc :: jsval where
  "emptyReplacementDoc =
     JObj [(''e'', JStr [CHR ''$'', CHR 0x60]), (''t'', JStr ''${e}''), (''s'', JStr ''x${t}y'')]"


definition cycleDoc :: jsval where
  "cycleDoc = JObj [(''a'', JStr ''${b}''), (''b'', JStr ''${a}'')]"

definition nestedDoc :: jsval where
  "nestedDoc = JObj [(''a'', JObj [(''b'', JStr ''x'')])]"

text \<open>The builder after the first resolution of \<^verbatim>\<open>a.b\<close> in \<open>nestedDoc\<close>: one entry in the cache,
  one call of the logger.\<close>

definition nestedResolved :: builder where
  "nestedResolved =
     \<lparr>configObject = nestedDoc,
      configCached = [(''cache__0_ab__1_undefined'', JStr ''x'')],
      logged = [LogCall LogDebug (''Resolving '' @ dquote @ ''%s'' @ dquote) [''a.b'']]\<rparr>"


text \<open>The file that \<^verbatim>\<open>loadConfig\<close> tries first.\<close>

definition userFile :: "host \<Rightarrow> string option \<Rightarrow> string" where
  "userFile h file0 =
     (case file0 of
        None \<Rightarrow> ''./.gulp.json''
      | Some f \<Rightarrow> if statSync_isFile h f = Inr True then f else ''./.gulp.json'')"

definition loadedMessage :: string where
  "loadedMessage = ''Loaded %s configuration file: '' @ dquote @ ''%s'' @ dquote"

definition unableMessage :: string where
  "unableMessage = ''Unable to load %s config file '' @ dquote @ ''%s'' @ dquote @ '': [%s] %s''"

text \<open>A host with two regular files: a primary file that is not JSON and a readable
  \<^verbatim>\<open>./.gulp.json\<close>. No bundled default exists.\<close>

definition okText :: string where
  "okText = ''{'' @ dquote @ ''ok'' @ dquote @ '':1}''"

definition exampleHost :: host where
  "exampleHost =
     \<lparr>statSync_isFile = (\<lambda>f. if f = ''./primary.json'' \<or> f = ''./.gulp.json'' then Inr True
                              else Inl (''Error'', ''ENOENT'')),
      readFileSync = (\<lambda>f. if f = ''./primary.json'' then Inr ''{not json''
                           else if f = ''./.gulp.json'' then Inr okText
                           else Inl (''Error'', ''ENOENT'')),
      JSON_parse = (\<lambda>s. if s = okText then Inr (JObj [(''ok'', JNum 1)])
                         else Inl (''SyntaxError'', ''Unexpected token''))\<rparr>"



text \<open>The cache holds strings, arrays and objects only. This is so in a new builder, and
  \<^verbatim>\<open>value\<close> keeps it so.\<close>

definition cacheStringLike :: "builder \<Rightarrow> bool" where
  "cacheStringLike st = list_all (\<lambda>kv. isStringLike (snd kv)) (configCached st)"



section \<open>Properties\<close>

subsection \<open>Traversal of the document\<close>








text \<open>A segment that names an inherited member is outside the statement above: the
  model stops there.\<close>

lemma resolveValue_inherited_example:
  "resolveValue (JObj [(''a'', JObj [])]) ''a.constructor.name'' = Inl (Inherited ''constructor'')"
  by code_simp

subsection \<open>The plural accessor options\<close>

text \<open>
  C10. Whatever its arguments and whatever the builder holds, \<^verbatim>\<open>options\<close> raises a
  \<^verbatim>\<open>ReferenceError\<close> for \<^verbatim>\<open>idxs\<close> and returns nothing, while \<^verbatim>\<open>globs\<close> (and \<^verbatim>\<open>paths\<close> and
  \<^verbatim>\<open>files\<close>, which differ from it in the namespace only) returns the values of its
  indexes as one array.
\<close>

theorem options_raises_ReferenceError:
  "options n reader idx opt = Inl (ReferenceError ''idxs'')
   \<and> outcome (globs (Suc (Suc k))
        (loaded (JObj [(''globs'', JObj [(''a'', JStr ''x''), (''b'', JArr [JStr ''y'', JStr ''z''])])]))
        [''a'', ''b''])
      = Inr (JArr [JStr ''x'', JStr ''y'', JStr ''z''])"
proof -
  have "options n reader idx opt = Inl (ReferenceError ''idxs'')"
    by (simp add: options_def resolveIdentifier_def)
  moreover have "outcome (globs (Suc (Suc k))
        (loaded (JObj [(''globs'', JObj [(''a'', JStr ''x''), (''b'', JArr [JStr ''y'', JStr ''z''])])]))
        [''a'', ''b''])
      = Inr (JArr [JStr ''x'', JStr ''y'', JStr ''z''])"
    by code_simp
  ultimately show ?thesis by simp
qed

subsection \<open>Decoration\<close>

lemma jsPlus_JStr_right: "jsPlus a (JStr s) = JStr (jsToString a @ s)"
  by (simp add: jsPlus_def)

lemma jsPlus_JStr_left: "jsPlus (JStr s) b = JStr (s @ jsToString b)"
  by (simp add: jsPlus_def)

lemma applyOptionsOnScalar_JStr:
  "applyOptionsOnScalar (JStr s) opt = JStr (decoration opt ''pre'' @ s @ decoration opt ''post'')"
  by (simp add: applyOptionsOnScalar_def decoration_def jsPlus_JStr_right jsPlus_JStr_left Let_def)

lemma applyOptionsOnArray_strings:
  "applyOptionsOnArray (map JStr ss) opt =
     Inr (map (\<lambda>s. JStr (decoration opt ''pre'' @ s @ decoration opt ''post'')) ss)"
  by (induction ss) (simp_all add: toStringMethod_def applyOptionsOnScalar_JStr)

text \<open>
  C8. For a resolved string and any options value, the final value is the string with
  the text of \<^verbatim>\<open>pre\<close> in front and the text of \<^verbatim>\<open>post\<close> behind, each present only when the
  options value has a truthy field of that name; for a resolved sequence of strings the
  same holds of every element. With \<^verbatim>\<open>{pre: "[", post: "]"}\<close> the value \<^verbatim>\<open>"mid"\<close> resolves to
  \<^verbatim>\<open>"[mid]"\<close> and the value \<^verbatim>\<open>["a", "b"]\<close> to \<^verbatim>\<open>["[a]", "[b]"]\<close>.
\<close>

theorem decoration_applied:
  "applyOptions (JStr s) opt = Inr (JStr (decoration opt ''pre'' @ s @ decoration opt ''post''))
   \<and> applyOptions (JArr (map JStr ss)) opt
       = Inr (JArr (map (\<lambda>s. JStr (decoration opt ''pre'' @ s @ decoration opt ''post'')) ss))
   \<and> decoration (JObj [(''pre'', JStr p), (''post'', JStr q)]) ''pre'' = p
   \<and> decoration (JObj [(''pre'', JStr p), (''post'', JStr q)]) ''post'' = q
   \<and> decoration (JObj [(''pre'', JStr p)]) ''post'' = []
   \<and> decoration (JObj [(''post'', JStr q)]) ''pre'' = []
   \<and> decoration JUndefined ''pre'' = [] \<and> decoration JUndefined ''post'' = []
   \<and> outcome (valueFor (Suc k) (loaded (JObj [(''x'', JStr ''mid'')])) JNull ''x''
                (JObj [(''pre'', JStr ''[''), (''post'', JStr '']'')]))
       = Inr (JStr ''[mid]'')
   \<and> outcome (valueFor (Suc k) (loaded (JObj [(''x'', JArr [JStr ''a'', JStr ''b''])])) JNull ''x''
                (JObj [(''pre'', JStr ''[''), (''post'', JStr '']'')]))
       = Inr (JArr [JStr ''[a]'', JStr ''[b]''])"
proof -
  have a: "applyOptions (JStr s) opt
             = Inr (JStr (decoration opt ''pre'' @ s @ decoration opt ''post''))"
    by (simp add: applyOptions_def applyOptionsOnScalar_JStr)
  have b: "applyOptions (JArr (map JStr ss)) opt
       = Inr (JArr (map (\<lambda>s. JStr (decoration opt ''pre'' @ s @ decoration opt ''post'')) ss))"
    by (simp add: applyOptions_def applyOptionsOnArray_strings)
  have c: "decoration (JObj [(''pre'', JStr p), (''post'', JStr q)]) ''pre'' = p"
    "decoration (JObj [(''pre'', JStr p), (''post'', JStr q)]) ''post'' = q"
    "decoration (JObj [(''pre'', JStr p)]) ''post'' = []"
    "decoration (JObj [(''post'', JStr q)]) ''pre'' = []"
    "decoration JUndefined ''pre'' = []" "decoration JUndefined ''post'' = []"
    by (simp_all add: decoration_def)
  have d: "outcome (valueFor (Suc k) (loaded (JObj [(''x'', JStr ''mid'')])) JNull ''x''
                (JObj [(''pre'', JStr ''[''), (''post'', JStr '']'')]))
       = Inr (JStr ''[mid]'')"
    by code_simp
  have e: "outcome (valueFor (Suc k) (loaded (JObj [(''x'', JArr [JStr ''a'', JStr ''b''])])) JNull
                ''x'' (JObj [(''pre'', JStr ''[''), (''post'', JStr '']'')]))
       = Inr (JArr [JStr ''[a]'', JStr ''[b]''])"
    by code_simp
  from a b c d e show ?thesis by simp
qed

subsection \<open>The cache\<close>

lemma map_of_updateFirst:
  "map_of (updateFirst k x kvs) k' =
     (if k' = k \<and> map_of kvs k \<noteq> None then Some x else map_of kvs k')"
  by (induction kvs) auto

lemma map_of_setProperty: "map_of (setProperty k x kvs) k = Some x"
  by (auto simp: setProperty_def map_of_updateFirst map_add_def)

lemma lookupCachedValue_assign:
  "truthy v \<Longrightarrow> lookupCachedValue (assignCachedValue st idx opt v) idx opt = v"
  by (simp add: lookupCachedValue_def assignCachedValue_def map_of_setProperty)

lemma lookupCachedValue_configObject:
  "lookupCachedValue (st\<lparr>configObject := t\<rparr>) idx opt = lookupCachedValue st idx opt"
  by (simp add: lookupCachedValue_def)

lemma valueFor_hit:
  "truthy (lookupCachedValue st (buildIndex ctx idx) opt) \<Longrightarrow>
   valueFor m st ctx idx opt = Inr (lookupCachedValue st (buildIndex ctx idx) opt, st)"
  by (simp add: valueFor_def Let_def)

lemma valueFor_cached_after:
  assumes "valueFor n st ctx idx opt = Inr (v, st1)" and "truthy v"
  shows "lookupCachedValue st1 (buildIndex ctx idx) opt = v"
proof (cases "truthy (lookupCachedValue st (buildIndex ctx idx) opt)")
  case True
  with assms show ?thesis by (auto simp: valueFor_hit)
next
  case False
  with assms show ?thesis
    by (auto simp: valueFor_def Let_def lookupCachedValue_assign split: sum.splits prod.splits)
qed

text \<open>
  C9. In the document \<^verbatim>\<open>{a: {b: "x"}}\<close> the path \<^verbatim>\<open>a.b\<close> resolves to \<^verbatim>\<open>"x"\<close>, with one call of
  \<^verbatim>\<open>lookup\<close> (one line of the logger) and one entry in the cache. The second resolution
  returns the same value and leaves the builder as it is: nothing is logged, nothing is
  looked up. In general, after a resolution that returned a truthy value, the same request
  returns that value from the cache without reading the document: the answer is the
  same whatever the document has become and whatever room the stack has left.
\<close>

theorem value_memoized:
  "(valueFor n st ctx idx opt = Inr (v, st1) \<and> truthy v \<longrightarrow>
      valueFor m (st1\<lparr>configObject := t\<rparr>) ctx idx opt = Inr (v, st1\<lparr>configObject := t\<rparr>))
   \<and> valueFor (Suc k) (loaded nestedDoc) JNull ''a.b'' JUndefined = Inr (JStr ''x'', nestedResolved)
   \<and> valueFor m nestedResolved JNull ''a.b'' JUndefined = Inr (JStr ''x'', nestedResolved)"
proof -
  have general: "valueFor m (st1\<lparr>configObject := t\<rparr>) ctx idx opt
                   = Inr (v, st1\<lparr>configObject := t\<rparr>)"
    if "valueFor n st ctx idx opt = Inr (v, st1)" "truthy v" for n st ctx idx opt v st1 m t
    using valueFor_cached_after[OF that] that(2)
    by (simp add: valueFor_hit lookupCachedValue_configObject)
  have first: "valueFor (Suc k) (loaded nestedDoc) JNull ''a.b'' JUndefined
                 = Inr (JStr ''x'', nestedResolved)" for k
    by code_simp
  have "valueFor m (nestedResolved\<lparr>configObject := nestedDoc\<rparr>) JNull ''a.b'' JUndefined
          = Inr (JStr ''x'', nestedResolved\<lparr>configObject := nestedDoc\<rparr>)"
    by (rule general[OF first[of 0]]) simp
  then have second: "valueFor m nestedResolved JNull ''a.b'' JUndefined
                       = Inr (JStr ''x'', nestedResolved)"
    by (simp add: nestedResolved_def)
  from general first second show ?thesis by blast
qed

text \<open>The general part at the example: the cached value is served with no room on the
  stack and with the document taken away.\<close>

theorem value_memoized_witness:
  "valueFor 1 (loaded nestedDoc) JNull ''a.b'' JUndefined = Inr (JStr ''x'', nestedResolved)
   \<and> truthy (JStr ''x'')
   \<and> valueFor 0 (nestedResolved\<lparr>configObject := JNull\<rparr>) JNull ''a.b'' JUndefined
       = Inr (JStr ''x'', nestedResolved\<lparr>configObject := JNull\<rparr>)"
  using value_memoized[of 1 "loaded nestedDoc" JNull "''a.b''" JUndefined "JStr ''x''"
          nestedResolved 0 JNull 0]
  by simp

text \<open>
  C3, at an input where it fails. The options \<^verbatim>\<open>{pre: "./"}\<close> and \<^verbatim>\<open>{pre: "../"}\<close> differ,
  and the keys built for them are the same, because the characters that tell them apart
  are not word characters. A value resolved with the first is then returned for a request
  made with the second, which asked for \<^verbatim>\<open>"../mid"\<close>.
\<close>

theorem cache_key_collision:
  "buildCacheIndex [JStr ''paths.x'', JObj [(''pre'', JStr ''./'')]]
     = buildCacheIndex [JStr ''paths.x'', JObj [(''pre'', JStr ''../'')]]
   \<and> (case valueFor (Suc k) (loaded (JObj [(''paths'', JObj [(''x'', JStr ''mid'')])]))
              (JStr ''paths'') ''x'' (JObj [(''pre'', JStr ''./'')]) of
         Inl e \<Rightarrow> False
       | Inr (v, reader) \<Rightarrow>
           v = JStr ''./mid'' \<and>
           outcome (valueFor m reader (JStr ''paths'') ''x'' (JObj [(''pre'', JStr ''../'')]))
             = Inr (JStr ''./mid''))"
  by code_simp

subsection \<open>Placeholders\<close>

lemma configObject_logCall: "configObject (logCall m msg args st) = configObject st"
  by (simp add: logCall_def)

lemma scalarLoop_inner_raises:
  "execPlaceholder parsed = Some (token, p) \<Longrightarrow> i \<le> maxIterations \<Longrightarrow>
   lookup n st p = Inl e \<Longrightarrow> scalarLoop n st i parsed = Inl e"
  by (subst scalarLoop.simps) simp

lemma cycle_values:
  "resolveValue cycleDoc ''a'' = Inr (JStr ''${b}'')"
  "resolveValue cycleDoc ''b'' = Inr (JStr ''${a}'')"
  "execPlaceholder ''${b}'' = Some (''${b}'', ''b'')"
  "execPlaceholder ''${a}'' = Some (''${a}'', ''a'')"
  by code_simp+

lemma cycle_lookup:
  "configObject st = cycleDoc \<Longrightarrow>
   lookup n st ''a'' = Inl RangeError \<and> lookup n st ''b'' = Inl RangeError"
proof (induction n arbitrary: st)
  case 0
  show ?case by simp
next
  case (Suc n)
  let ?sa = "logCall LogDebug (''Resolving '' @ dquote @ ''%s'' @ dquote) [''a''] st"
  let ?sb = "logCall LogDebug (''Resolving '' @ dquote @ ''%s'' @ dquote) [''b''] st"
  have ca: "configObject ?sa = cycleDoc" and cb: "configObject ?sb = cycleDoc"
    using Suc.prems by (simp_all add: configObject_logCall)
  have "scalarLoop n ?sa 0 ''${b}'' = Inl RangeError"
    using Suc.IH[OF ca] by (intro scalarLoop_inner_raises[OF cycle_values(3)]) simp_all
  moreover have "scalarLoop n ?sb 0 ''${a}'' = Inl RangeError"
    using Suc.IH[OF cb] by (intro scalarLoop_inner_raises[OF cycle_values(4)]) simp_all
  ultimately show ?case
    using ca cb by (simp add: cycle_values toStringMethod_def Let_def)
qed

text \<open>
  C2, at its own input. In the document \<^verbatim>\<open>{a: "${b}", b: "${a}"}\<close> the resolution of \<^verbatim>\<open>a\<close>
  returns no string: each call of \<^verbatim>\<open>resolveReplacementsForScalar\<close> starts its own counter
  and calls \<^verbatim>\<open>lookup\<close> for the other path before it counts anything, so the calls nest until
  the stack is exhausted, however much room it has, and the \<^verbatim>\<open>RangeError\<close> reaches the caller.
\<close>

theorem cycle_exhausts_stack:
  "valueFor n (loaded cycleDoc) JNull ''a'' JUndefined = Inl RangeError"
proof -
  have "lookupCachedValue (loaded cycleDoc) ''a'' JUndefined = JNull"
    by (simp add: lookupCachedValue_def loaded_def)
  moreover have "lookup n (loaded cycleDoc) ''a'' = Inl RangeError"
    using cycle_lookup[of "loaded cycleDoc" n] by (simp add: loaded_def)
  ultimately show ?thesis
    by (simp add: valueFor_def buildIndex_def)
qed



text \<open>The guard \<^verbatim>\<open>if (replace)\<close> skips a substitution only when the inner \<^verbatim>\<open>lookup\<close> returns a
  falsy value, which a path that is present can do: in
  \<^verbatim>\<open>{e: "$`", t: "${e}", s: "x${t}y"}\<close> the path \<^verbatim>\<open>t\<close> resolves to the empty string, and \<^verbatim>\<open>s\<close>
  resolves to itself with the token in place.\<close>

lemma falsy_lookup_leaves_token:
  "outcome (valueFor (Suc (Suc (Suc k))) (loaded emptyReplacementDoc) JNull ''t'' JUndefined)
     = Inr (JStr [])
   \<and> outcome (valueFor (Suc (Suc (Suc k))) (loaded emptyReplacementDoc) JNull ''s'' JUndefined)
     = Inr (JStr ''x${t}y'')"
  by code_simp


lemma getSubstitution_plain:
  "CHR ''$'' \<notin> set template \<Longrightarrow> getSubstitution matched preceding following template = template"
  by (induction matched preceding following template rule: getSubstitution.induct) auto

text \<open>
  C7, at its examples and at an input where it fails. \<^verbatim>\<open>{a: "foo", b: "prefix-${a}-suffix"}\<close>
  resolves \<^verbatim>\<open>b\<close> to \<^verbatim>\<open>"prefix-foo-suffix"\<close>, and \<^verbatim>\<open>{a: "${b}", b: "${c}", c: "leaf"}\<close>
  resolves \<^verbatim>\<open>a\<close> to \<^verbatim>\<open>"leaf"\<close>. But the resolved value is handed to
  \<^verbatim>\<open>String.prototype.replace\<close> as a replacement template, so it replaces the token as it
  is only when it holds no dollar sign (\<open>getSubstitution_plain\<close>): in
  \<^verbatim>\<open>{a: "$$", b: "-${a}-${a}-"}\<close> the path \<^verbatim>\<open>a\<close> resolves to \<^verbatim>\<open>"$$"\<close> and the path \<^verbatim>\<open>b\<close> to
  \<^verbatim>\<open>"-$-$-"\<close>, not to \<^verbatim>\<open>"-$$-$$-"\<close>.
\<close>

theorem replacement_is_a_template:
  "outcome (valueFor (Suc (Suc k))
        (loaded (JObj [(''a'', JStr ''foo''), (''b'', JStr ''prefix-${a}-suffix'')]))
      JNull ''b'' JUndefined) = Inr (JStr ''prefix-foo-suffix'')
   \<and> outcome (valueFor (Suc (Suc (Suc k)))
        (loaded (JObj [(''a'', JStr ''${b}''), (''b'', JStr ''${c}''), (''c'', JStr ''leaf'')]))
      JNull ''a'' JUndefined) = Inr (JStr ''leaf'')
   \<and> outcome (valueFor (Suc (Suc k))
        (loaded (JObj [(''a'', JStr ''$$''), (''b'', JStr ''-${a}-${a}-'')]))
      JNull ''a'' JUndefined) = Inr (JStr ''$$'')
   \<and> outcome (valueFor (Suc (Suc k))
        (loaded (JObj [(''a'', JStr ''$$''), (''b'', JStr ''-${a}-${a}-'')]))
      JNull ''b'' JUndefined) = Inr (JStr ''-$-$-'')"
  by code_simp

subsection \<open>Loading\<close>

text \<open>
  C4, as the source has it. When \<^verbatim>\<open>fs.statSync\<close> does not raise (no path is given, or the
  path names something), \<^verbatim>\<open>loadConfig\<close> raises nothing. It tries one user file: the given
  path when that is a regular file, \<^verbatim>\<open>./.gulp.json\<close> otherwise. When that file cannot be
  read or parsed it logs an error and tries the bundled default, and only when the
  default fails too does it log at the emergency level, which is the highest level of
  the logger, and leave the document as it was. A given regular file that fails is not
  followed by an attempt on \<^verbatim>\<open>./.gulp.json\<close>.
\<close>

theorem loadConfig_fallback:
  assumes "file0 = None \<or> (\<exists>f b. file0 = Some f \<and> statSync_isFile h f = Inr b)"
  shows "\<exists>st'. loadConfig h st file0 = Inr st' \<and> configCached st' = configCached st \<and>
           (case readAndParseConfig h (userFile h file0) of
              Inr doc \<Rightarrow>
                configObject st' = doc \<and>
                logged st' = logged st @
                  [LogCall LogInfo loadedMessage [''user'', userFile h file0]]
            | Inl (name1, message1) \<Rightarrow>
                (case readAndParseConfig h configFileDefault of
                   Inr doc \<Rightarrow>
                     configObject st' = doc \<and>
                     logged st' = logged st @
                       [LogCall LogError unableMessage
                          [''user'', userFile h file0, name1, message1],
                        LogCall LogInfo loadedMessage [''default'', configFileDefault]]
                 | Inl (name2, message2) \<Rightarrow>
                     configObject st' = configObject st \<and>
                     logged st' = logged st @
                       [LogCall LogError unableMessage
                          [''user'', userFile h file0, name1, message1],
                        LogCall LogError unableMessage
                          [''default'', configFileDefault, name2, message2],
                        LogCall LogEmergency
                          ''Could not load user config or default config files.'' []]))
         \<and> (\<forall>m. level m \<le> level LogEmergency)"
proof -
  have lv: "level m \<le> 4" for m by (cases m) simp_all
  have sel: "(case file0 of
              None \<Rightarrow> Inr ''./.gulp.json''
            | Some f \<Rightarrow>
                (case statSync_isFile h f of
                   Inl (name, message) \<Rightarrow> Inl (HostError name message)
                 | Inr isFile \<Rightarrow> Inr (if \<not> isFile then ''./.gulp.json'' else f)))
             = Inr (userFile h file0)"
    using assms by (auto simp: userFile_def)
  show ?thesis
    unfolding loadConfig_def sel
    by (auto simp: loadConfigFile_def logCall_def loadedMessage_def unableMessage_def lv
             split: sum.splits prod.splits)
qed

lemma exampleHost_facts:
  "statSync_isFile exampleHost ''./primary.json'' = Inr True"
  "userFile exampleHost (Some ''./primary.json'') = ''./primary.json''"
  "readAndParseConfig exampleHost ''./primary.json'' = Inl (''SyntaxError'', ''Unexpected token'')"
  "readAndParseConfig exampleHost configFileDefault = Inl (''Error'', ''ENOENT'')"
  "readAndParseConfig exampleHost ''./.gulp.json'' = Inr (JObj [(''ok'', JNum 1)])"
  by code_simp+

theorem loadConfig_fallback_witness:
  "statSync_isFile exampleHost ''./primary.json'' = Inr True
   \<and> (\<exists>st'. loadConfig exampleHost newBuilder (Some ''./primary.json'') = Inr st'
         \<and> configObject st' = configObject newBuilder
         \<and> logged st' = logged newBuilder @
             [LogCall LogError unableMessage
                [''user'', ''./primary.json'', ''SyntaxError'', ''Unexpected token''],
              LogCall LogError unableMessage
                [''default'', configFileDefault, ''Error'', ''ENOENT''],
              LogCall LogEmergency ''Could not load user config or default config files.'' []])"
proof -
  have h: "Some ''./primary.json'' = None \<or>
           (\<exists>f b. Some ''./primary.json'' = Some f \<and> statSync_isFile exampleHost f = Inr b)"
    using exampleHost_facts(1) by blast
  from loadConfig_fallback[OF h, of newBuilder] show ?thesis
    by (auto simp: exampleHost_facts)
qed

text \<open>
  C4 as the specification words it: a primary file with invalid JSON is recovered by
  trying the conventional path and then the bundled default, and the fatal error is
  signalled only when every source fails. On the example host the conventional file
  \<^verbatim>\<open>./.gulp.json\<close> is readable, and yet the builder that was given the invalid primary file
  ends with an empty document and a call of \<^verbatim>\<open>emergency\<close>: the conventional path was never
  tried.
\<close>

theorem loadConfig_skips_conventional_path:
  "loadConfig exampleHost newBuilder (Some ''./primary.json'')
     = Inr \<lparr>configObject = JObj [], configCached = [],
            logged = [LogCall LogError unableMessage
                        [''user'', ''./primary.json'', ''SyntaxError'', ''Unexpected token''],
                      LogCall LogError unableMessage
                        [''default'', ''./.gulp/default-config.json'', ''Error'', ''ENOENT''],
                      LogCall LogEmergency
                        ''Could not load user config or default config files.'' []]\<rparr>
   \<and> readAndParseConfig exampleHost ''./.gulp.json'' = Inr (JObj [(''ok'', JNum 1)])"
  by code_simp

text \<open>A path that names nothing: \<^verbatim>\<open>fs.statSync\<close> raises outside every handler, and the
  error leaves \<^verbatim>\<open>loadConfig\<close> and the constructor.\<close>

lemma loadConfig_missing_path_raises:
  "statSync_isFile h f = Inl (name, message) \<Longrightarrow>
   loadConfig h st (Some f) = Inl (HostError name message)"
  by (simp add: loadConfig_def)

subsection \<open>What a resolution returns\<close>






























lemma cacheStringLike_constructor: "constructor h configFile = Inr st \<Longrightarrow> cacheStringLike st"
  by (auto simp: constructor_def loadConfig_def loadConfigFile_def newBuilder_def logCall_def
                 cacheStringLike_def split: sum.splits prod.splits option.splits bool.splits)

subsection \<open>build\<close>



end
